theory Spec2Isabelle
  imports Main "HOL-Library.Sublist" "HOL-Library.Char_ord" "HOL-Library.List_Lexorder"
begin

section \<open>Data model (shared/schema.ts)\<close>

text \<open>
  Each table of \<^verbatim>\<open>shared/schema.ts\<close> is a list of rows; a row is a record with the
  columns of the table. Identifiers are \<^verbatim>\<open>varchar\<close> strings, timestamps are
  milliseconds since the epoch, nullable columns are options. A string is a list of
  characters, and a \<open>char\<close> is a code point from U+0000 to U+00FF: the strings of the
  model are the JavaScript strings over this range (ISO 8859-1). Field names carry the
  table as a prefix, since the tables share the column names \<^verbatim>\<open>id\<close>,
  \<^verbatim>\<open>userId\<close> and \<^verbatim>\<open>createdAt\<close>.
\<close>

type_synonym timestamp = nat

record EmailAccount =
  account_id :: string
  account_userId :: string
  account_provider :: string
  account_email :: string

record Email =
  email_id :: string
  email_emailAccountId :: string
  email_messageId :: string
  email_subject :: string
  email_sender :: string
  email_senderEmail :: string
  email_receivedAt :: timestamp
  email_bodyPreview :: string
  email_bodyFull :: "string option"
  email_isRead :: bool

record Label =
  label_id :: string
  label_userId :: string
  label_name :: string
  label_color :: string
  label_description :: "string option"

record EmailLabel =
  el_id :: string
  el_emailId :: string
  el_labelId :: string
  el_isAuto :: bool
  el_createdAt :: "timestamp option"

text \<open>
  The \<^verbatim>\<open>filters\<close> column is \<^verbatim>\<open>jsonb\<close>; the only key the server reads is
  \<^verbatim>\<open>labelIds\<close>, which the create route stores as
  \<^verbatim>\<open>req.body.labelIds ? { labelIds: req.body.labelIds } : {}\<close>.
  \<open>None\<close> is the absent key.
\<close>

record Filters =
  labelIds :: "string list option"

record Workflow =
  workflow_id :: string
  workflow_userId :: string
  workflow_name :: string
  workflow_description :: "string option"
  workflow_frequency :: string
  workflow_filters :: Filters
  workflow_prompt :: string
  workflow_isActive :: bool
  workflow_lastRunAt :: "timestamp option"
  workflow_nextRunAt :: "timestamp option"

record WorkflowExecution =
  execution_id :: string
  execution_workflowId :: string
  execution_summary :: string
  execution_emailCount :: nat
  execution_executedAt :: "timestamp option"

text \<open>
  \<^verbatim>\<open>EmailWithLabels = Email & { labels: (EmailLabel & { label: Label })[] }\<close>:
  the email's columns together with its associations, each paired with its label row.
\<close>

record EmailLabelWithLabel =
  ell_emailLabel :: EmailLabel
  ell_label :: Label

record EmailWithLabels =
  ewl_email :: Email
  ewl_labels :: "EmailLabelWithLabel list"

record db =
  emailAccounts :: "EmailAccount list"
  emails :: "Email list"
  labels :: "Label list"
  emailLabels :: "EmailLabel list"
  workflows :: "Workflow list"
  workflowExecutions :: "WorkflowExecution list"

section \<open>Errors and the outside world\<close>

text \<open>
  A rejected promise or a thrown exception is a value: \<open>Inl\<close> of the error.
  \<open>ApiError\<close> stands for whatever the OpenAI client throws, \<open>StorageError\<close> for a
  constraint violation raised by the database.
\<close>

datatype js_error = Error string | TypeError | SyntaxError | ApiError | StorageError string

text \<open>
  What the handlers read from outside the program is given to them as an environment:
  the outcome of the one chat-completion call a request makes, the values of
  \<^verbatim>\<open>gen_random_uuid()\<close> for the rows it inserts (the \<open>i\<close>-th insert gets
  \<open>env_uuid i\<close>), the database's \<^verbatim>\<open>now()\<close> for \<^verbatim>\<open>defaultNow()\<close> columns and the
  server's \<^verbatim>\<open>new Date()\<close>.
\<close>

datatype ChatReply =
    Rejects                     \<comment> \<open>\<^verbatim>\<open>openai.chat.completions.create\<close> throws\<close>
  | NoChoices                   \<comment> \<open>\<^verbatim>\<open>response.choices[0]\<close> is undefined\<close>
  | Content "string option"     \<comment> \<open>\<^verbatim>\<open>response.choices[0].message.content\<close>, \<open>None\<close> for null\<close>

record Env =
  env_reply :: ChatReply
  env_uuid :: "nat \<Rightarrow> string"
  env_dbNow :: timestamp
  env_now :: timestamp

text \<open>The requests sent to the external model are collected, so that "no call was made" is
  the empty list.\<close>

record ChatRequest =
  req_model :: string
  req_content :: string
  req_json_object :: bool
  req_max_completion_tokens :: nat

section \<open>Storage (DatabaseStorage)\<close>

text \<open>\<^verbatim>\<open>const [row] = await db.select()...\<close>: the first row, or undefined.\<close>

definition first_row :: "'a list \<Rightarrow> 'a option" where
  "first_row rows = (case rows of [] \<Rightarrow> None | r # _ \<Rightarrow> Some r)"

subsection \<open>Emails with their labels\<close>

text \<open>
  The select of \<^verbatim>\<open>getEmailsByUserId\<close> and \<^verbatim>\<open>getEmailById\<close>: emails inner-joined with
  their account, left-joined with their associations, left-joined with the label of
  each association. A left join keeps a row without a partner, with null columns.
\<close>

record JoinedRow =
  row_email :: Email
  row_account :: EmailAccount
  row_emailLabel :: "EmailLabel option"
  row_label :: "Label option"

definition join_labels :: "db \<Rightarrow> Email \<Rightarrow> EmailAccount \<Rightarrow> EmailLabel \<Rightarrow> JoinedRow list" where
  "join_labels d e a el =
     (let ls = [l \<leftarrow> labels d. el_labelId el = label_id l]
      in if ls = []
         then [\<lparr>row_email = e, row_account = a, row_emailLabel = Some el, row_label = None\<rparr>]
         else map (\<lambda>l. \<lparr>row_email = e, row_account = a, row_emailLabel = Some el,
                          row_label = Some l\<rparr>) ls)"

definition join_emailLabels :: "db \<Rightarrow> Email \<Rightarrow> EmailAccount \<Rightarrow> JoinedRow list" where
  "join_emailLabels d e a =
     (let els = [el \<leftarrow> emailLabels d. email_id e = el_emailId el]
      in if els = []
         then [\<lparr>row_email = e, row_account = a, row_emailLabel = None, row_label = None\<rparr>]
         else concat (map (join_labels d e a) els))"

definition joined_rows :: "db \<Rightarrow> JoinedRow list" where
  "joined_rows d =
     concat (map (\<lambda>e. concat (map (join_emailLabels d e)
                                   [a \<leftarrow> emailAccounts d. email_emailAccountId e = account_id a]))
                 (emails d))"

text \<open>
  The grouping loop of \<^verbatim>\<open>getEmailsByUserId\<close>. A JavaScript \<^verbatim>\<open>Map\<close> iterates in
  insertion order, so it is an association list with unique keys.
\<close>

definition push_label :: "string \<Rightarrow> EmailLabelWithLabel \<Rightarrow> (string \<times> EmailWithLabels) list
    \<Rightarrow> (string \<times> EmailWithLabels) list" where
  "push_label k x m =
     map (\<lambda>(k', v). if k' = k then (k', v\<lparr>ewl_labels := ewl_labels v @ [x]\<rparr>) else (k', v)) m"

fun group_rows :: "JoinedRow list \<Rightarrow> (string \<times> EmailWithLabels) list
    \<Rightarrow> (string \<times> EmailWithLabels) list" where
  "group_rows [] emailMap = emailMap"
| "group_rows (row # rows) emailMap =
     (let k = email_id (row_email row);
          m1 = (if map_of emailMap k = None
                then emailMap @ [(k, \<lparr>ewl_email = row_email row, ewl_labels = []\<rparr>)]
                else emailMap);
          m2 = (case (row_emailLabel row, row_label row) of
                  (Some el, Some l) \<Rightarrow> push_label k \<lparr>ell_emailLabel = el, ell_label = l\<rparr> m1
                | _ \<Rightarrow> m1)
      in group_rows rows m2)"

text \<open>
  \<^verbatim>\<open>orderBy(desc(emails.receivedAt))\<close>: SQL leaves the order of rows with equal keys
  open; the model takes the stable sort.
\<close>

definition getEmailsByUserId :: "db \<Rightarrow> string \<Rightarrow> EmailWithLabels list" where
  "getEmailsByUserId d userId =
     (let userEmails = sort_key (\<lambda>r. - int (email_receivedAt (row_email r)))
                         [r \<leftarrow> joined_rows d. account_userId (row_account r) = userId]
      in map snd (group_rows userEmails []))"

definition getEmailById :: "db \<Rightarrow> string \<Rightarrow> string \<Rightarrow> EmailWithLabels option" where
  "getEmailById d emailId userId =
     (let emailData = [r \<leftarrow> joined_rows d.
                         email_id (row_email r) = emailId \<and> account_userId (row_account r) = userId]
      in case emailData of
           [] \<Rightarrow> None
         | r0 # _ \<Rightarrow>
             Some \<lparr>ewl_email = row_email r0,
                   ewl_labels = concat (map (\<lambda>row.
                       case (row_emailLabel row, row_label row) of
                         (Some el, Some l) \<Rightarrow> [\<lparr>ell_emailLabel = el, ell_label = l\<rparr>]
                       | _ \<Rightarrow> []) emailData)\<rparr>)"

subsection \<open>Labels\<close>

text \<open>\<^verbatim>\<open>orderBy(labels.name)\<close>, with the order of strings standing for the collation.\<close>

definition getLabelsByUserId :: "db \<Rightarrow> string \<Rightarrow> Label list" where
  "getLabelsByUserId d userId = sort_key label_name [l \<leftarrow> labels d. label_userId l = userId]"

definition getLabelById :: "db \<Rightarrow> string \<Rightarrow> string \<Rightarrow> Label option" where
  "getLabelById d labelId userId =
     first_row [l \<leftarrow> labels d. label_id l = labelId \<and> label_userId l = userId]"

subsection \<open>Email labels\<close>

record InsertEmailLabel =
  iel_emailId :: string
  iel_labelId :: string
  iel_isAuto :: bool

text \<open>
  \<^verbatim>\<open>db.insert(emailLabels).values(data).onConflictDoNothing()\<close>.
  The table \<^verbatim>\<open>email_labels\<close> (schema.ts, 144-153) declares the primary key \<^verbatim>\<open>id\<close>,
  defaulting to \<^verbatim>\<open>gen_random_uuid()\<close>, two foreign keys and two plain indexes on
  \<^verbatim>\<open>emailId\<close> and on \<^verbatim>\<open>labelId\<close>. The primary key is its only unique constraint, so it
  is the only conflict \<^verbatim>\<open>ON CONFLICT DO NOTHING\<close> can meet. A foreign-key violation is
  an error whatever the conflict clause.
\<close>

definition insert_emailLabel_onConflictDoNothing ::
    "db \<Rightarrow> string \<Rightarrow> timestamp \<Rightarrow> InsertEmailLabel \<Rightarrow> js_error + db" where
  "insert_emailLabel_onConflictDoNothing d uuid dbNow data =
     (if (\<exists>e \<in> set (emails d). email_id e = iel_emailId data)
           \<and> (\<exists>l \<in> set (labels d). label_id l = iel_labelId data)
      then (if \<exists>el \<in> set (emailLabels d). el_id el = uuid
            then Inr d
            else Inr (d\<lparr>emailLabels := emailLabels d @
                    [\<lparr>el_id = uuid, el_emailId = iel_emailId data, el_labelId = iel_labelId data,
                      el_isAuto = iel_isAuto data, el_createdAt = Some dbNow\<rparr>]\<rparr>))
      else Inl (StorageError ''foreign key violation''))"

definition addLabelToEmail ::
    "db \<Rightarrow> string \<Rightarrow> timestamp \<Rightarrow> InsertEmailLabel \<Rightarrow> string \<Rightarrow> js_error + db" where
  "addLabelToEmail d uuid dbNow data userId =
     (let email = getEmailById d (iel_emailId data) userId;
          label = getLabelById d (iel_labelId data) userId
      in if email = None \<or> label = None
         then Inl (Error ''Email or label not found'')
         else insert_emailLabel_onConflictDoNothing d uuid dbNow data)"

subsection \<open>Workflows and executions\<close>

definition getWorkflowById :: "db \<Rightarrow> string \<Rightarrow> string \<Rightarrow> Workflow option" where
  "getWorkflowById d workflowId userId =
     first_row [w \<leftarrow> workflows d. workflow_id w = workflowId \<and> workflow_userId w = userId]"

text \<open>
  \<^verbatim>\<open>db.update(workflows).set(data).where(and(eq(id), eq(userId))).returning()\<close>; the
  \<^verbatim>\<open>set\<close> clause is the function \<open>data\<close> on a row.
\<close>

definition updateWorkflow ::
    "db \<Rightarrow> string \<Rightarrow> string \<Rightarrow> (Workflow \<Rightarrow> Workflow) \<Rightarrow> Workflow option \<times> db" where
  "updateWorkflow d workflowId userId data =
     (let hit = (\<lambda>w. workflow_id w = workflowId \<and> workflow_userId w = userId)
      in (first_row (map data [w \<leftarrow> workflows d. hit w]),
          d\<lparr>workflows := map (\<lambda>w. if hit w then data w else w) (workflows d)\<rparr>))"

record InsertWorkflowExecution =
  iwe_workflowId :: string
  iwe_summary :: string
  iwe_emailCount :: nat

text \<open>
  PostgreSQL stores no U+0000 in a \<^verbatim>\<open>text\<close> or \<^verbatim>\<open>varchar\<close> value: a statement that
  carries one is refused ("invalid byte sequence for encoding UTF8: 0x00"). The model
  checks the one text a request writes that comes from outside the database, the summary
  of an execution. The identifiers given to the selects above are compared with stored
  values only; the selects are modelled for identifiers without U+0000.
\<close>

definition pg_text :: "string \<Rightarrow> bool" where
  "pg_text s = (CHR 0x00 \<notin> set s)"

text \<open>
  \<^verbatim>\<open>db.insert(workflowExecutions).values(execution).returning()\<close>: a plain insert, which
  the database refuses when the summary is no \<^verbatim>\<open>text\<close> value, and when the foreign key
  or the primary key is violated. The workflow identifier is that of a stored row, by the
  foreign key. \<^verbatim>\<open>email_count\<close> is a 32-bit integer column; the count is the length of
  an array the server holds in memory, below that bound, and the model does not bound it.
\<close>

definition createWorkflowExecution ::
    "db \<Rightarrow> string \<Rightarrow> timestamp \<Rightarrow> InsertWorkflowExecution \<Rightarrow> js_error + WorkflowExecution \<times> db" where
  "createWorkflowExecution d uuid dbNow execution =
     (if pg_text (iwe_summary execution)
      then
       (if \<exists>w \<in> set (workflows d). workflow_id w = iwe_workflowId execution
        then (if \<exists>x \<in> set (workflowExecutions d). execution_id x = uuid
              then Inl (StorageError ''duplicate key'')
              else (let newExecution =
                          \<lparr>execution_id = uuid, execution_workflowId = iwe_workflowId execution,
                           execution_summary = iwe_summary execution,
                           execution_emailCount = iwe_emailCount execution,
                           execution_executedAt = Some dbNow\<rparr>
                    in Inr (newExecution,
                            d\<lparr>workflowExecutions := workflowExecutions d @ [newExecution]\<rparr>)))
        else Inl (StorageError ''foreign key violation''))
      else Inl (StorageError ''invalid byte sequence for encoding UTF8: 0x00''))"

section \<open>The OpenAI calls (openai.ts)\<close>

subsection \<open>JavaScript values and strings\<close>

definition nl :: string where
  "nl = [CHR 0x0A]"

definition dq :: string where
  "dq = [CHR 0x22]"

text \<open>\<^verbatim>\<open>Array.prototype.join\<close> on an array of strings.\<close>

fun join :: "string \<Rightarrow> string list \<Rightarrow> string" where
  "join sep [] = []"
| "join sep [x] = x"
| "join sep (x # y # ys) = x @ sep @ join sep (y # ys)"

text \<open>
  \<^verbatim>\<open>String.prototype.toLowerCase\<close> converts by the Unicode case mapping. Between U+0000
  and U+00FF the code points with a lower-case mapping are the capitals \<^verbatim>\<open>A-Z\<close>
  (U+0041 to U+005A) and the capitals of ISO 8859-1, U+00C0 to U+00D6 and U+00D8 to
  U+00DE; each maps to the code point 32 places up. U+00D7 is the multiplication sign,
  and every other code point of the range is left as it is.
\<close>

definition toLowerCase_char :: "char \<Rightarrow> char" where
  "toLowerCase_char c =
     (let n = (of_char c :: nat)
      in if (65 \<le> n \<and> n \<le> 90) \<or> (192 \<le> n \<and> n \<le> 214) \<or> (216 \<le> n \<and> n \<le> 222)
         then char_of (n + 32) else c)"

definition toLowerCase :: "string \<Rightarrow> string" where
  "toLowerCase s = map toLowerCase_char s"

text \<open>
  The value \<^verbatim>\<open>JSON.parse\<close> returns. An object is the list of its members; the parser
  keeps one member per key.
\<close>

datatype json =
    JNull | JBool bool | JNum int | JStr string | JArr "json list" | JObj "(string \<times> json) list"

text \<open>JavaScript truthiness, for \<^verbatim>\<open>result.labels || []\<close>.\<close>

fun truthy :: "json \<Rightarrow> bool" where
  "truthy JNull = False"
| "truthy (JBool b) = b"
| "truthy (JNum n) = (n \<noteq> 0)"
| "truthy (JStr s) = (s \<noteq> [])"
| "truthy (JArr xs) = True"
| "truthy (JObj kvs) = True"

text \<open>
  \<^verbatim>\<open>result.labels\<close>: reading a property of \<^verbatim>\<open>null\<close> throws a TypeError; a primitive
  or an array has no such property (\<open>None\<close> is \<^verbatim>\<open>undefined\<close>).
\<close>

fun get_labels :: "json \<Rightarrow> js_error + json option" where
  "get_labels JNull = Inl TypeError"
| "get_labels (JObj kvs) = Inr (map_of kvs ''labels'')"
| "get_labels v = Inr None"

definition or_empty_array :: "json option \<Rightarrow> json" where
  "or_empty_array v = (case v of None \<Rightarrow> JArr [] | Some x \<Rightarrow> if truthy x then x else JArr [])"

text \<open>
  \<^verbatim>\<open>suggestedLabels.some((name: string) => name.toLowerCase() === label.name.toLowerCase())\<close>.
  \<^verbatim>\<open>some\<close> stops at the first element for which the callback is true; the callback
  throws a TypeError on an element that is not a string, and \<^verbatim>\<open>.some\<close> is not a
  function on a value that is not an array.
\<close>

fun some_name :: "json list \<Rightarrow> string \<Rightarrow> js_error + bool" where
  "some_name [] labelName = Inr False"
| "some_name (JStr name # rest) labelName =
     (if toLowerCase name = toLowerCase labelName then Inr True else some_name rest labelName)"
| "some_name (v # rest) labelName = Inl TypeError"

fun suggested_some :: "json \<Rightarrow> string \<Rightarrow> js_error + bool" where
  "suggested_some (JArr names) labelName = some_name names labelName"
| "suggested_some v labelName = Inl TypeError"

text \<open>\<^verbatim>\<open>availableLabels.filter(label => ...)\<close>, leaving at the first callback that throws.\<close>

fun filter_suggested :: "json \<Rightarrow> Label list \<Rightarrow> js_error + Label list" where
  "filter_suggested suggestedLabels [] = Inr []"
| "filter_suggested suggestedLabels (label # rest) =
     (case suggested_some suggestedLabels (label_name label) of
        Inl e \<Rightarrow> Inl e
      | Inr keep \<Rightarrow>
          (case filter_suggested suggestedLabels rest of
             Inl e \<Rightarrow> Inl e
           | Inr kept \<Rightarrow> Inr (if keep then label # kept else kept)))"

subsection \<open>classifyEmail\<close>

definition classify_prompt :: "string \<Rightarrow> string \<Rightarrow> string \<Rightarrow> string" where
  "classify_prompt labelNames emailSubject emailBody =
     ''You are an email classification assistant. Classify the following email into one or more of these categories: ''
     @ labelNames @ nl @ nl
     @ ''Email Subject: '' @ emailSubject @ nl
     @ ''Email Body: '' @ emailBody @ nl @ nl
     @ ''Return only a JSON object with a '' @ dq @ ''labels'' @ dq
     @ '' array containing the matching category names from the provided list. Only use categories from the list provided. If none match, return an empty array.''
     @ nl @ nl
     @ ''Example response format: { '' @ dq @ ''labels'' @ dq @ '': ['' @ dq @ ''Work'' @ dq
     @ '', '' @ dq @ ''Important'' @ dq @ ''] }''"

text \<open>\<^verbatim>\<open>response.choices[0].message.content || "{}"\<close>: null and the empty string are
  falsy.\<close>

definition or_empty_object :: "string option \<Rightarrow> string" where
  "or_empty_object content =
     (case content of None \<Rightarrow> ''{}'' | Some c \<Rightarrow> if c = [] then ''{}'' else c)"

text \<open>
  The body of the \<^verbatim>\<open>try\<close> block, after the request was sent. \<open>JSON_parse\<close> is the
  built-in parser: \<open>Inl\<close> when it throws.
\<close>

definition classify_try ::
    "(string \<Rightarrow> js_error + json) \<Rightarrow> Label list \<Rightarrow> ChatReply \<Rightarrow> js_error + string list" where
  "classify_try JSON_parse availableLabels reply =
     (case reply of
        Rejects \<Rightarrow> Inl ApiError
      | NoChoices \<Rightarrow> Inl TypeError
      | Content content \<Rightarrow>
          (case JSON_parse (or_empty_object content) of
             Inl e \<Rightarrow> Inl e
           | Inr result \<Rightarrow>
               (case get_labels result of
                  Inl e \<Rightarrow> Inl e
                | Inr labelsProp \<Rightarrow>
                    (case filter_suggested (or_empty_array labelsProp) availableLabels of
                       Inl e \<Rightarrow> Inl e
                     | Inr matching \<Rightarrow> Inr (map label_id matching)))))"

text \<open>
  \<^verbatim>\<open>classifyEmail\<close> returns what the promise settles to (\<open>Inl\<close> would be a rejection)
  and the requests it sent. The \<^verbatim>\<open>catch\<close> turns every error of the \<^verbatim>\<open>try\<close> block
  into the empty array.
\<close>

definition classifyEmail ::
    "(string \<Rightarrow> js_error + json) \<Rightarrow> string \<Rightarrow> string \<Rightarrow> Label list \<Rightarrow> ChatReply
       \<Rightarrow> (js_error + string list) \<times> ChatRequest list" where
  "classifyEmail JSON_parse emailSubject emailBody availableLabels reply =
     (if length availableLabels = 0 then (Inr [], [])
      else
        (let labelNames = join '', '' (map label_name availableLabels);
             prompt = classify_prompt labelNames emailSubject emailBody;
             request = \<lparr>req_model = ''gpt-5'', req_content = prompt, req_json_object = True,
                        req_max_completion_tokens = 500\<rparr>
         in (case classify_try JSON_parse availableLabels reply of
               Inl e \<Rightarrow> Inr []
             | Inr ids \<Rightarrow> Inr ids,
             [request])))"

subsection \<open>generateWorkflowSummary\<close>

record EmailData =
  ed_subject :: string
  ed_sender :: string
  ed_bodyPreview :: string

definition email_text :: "EmailData \<Rightarrow> string" where
  "email_text e =
     ''Subject: '' @ ed_subject e @ nl @ ''From: '' @ ed_sender e @ nl @ ed_bodyPreview e"

definition generateWorkflowSummary ::
    "EmailData list \<Rightarrow> string \<Rightarrow> ChatReply \<Rightarrow> (js_error + string) \<times> ChatRequest list" where
  "generateWorkflowSummary emailData customPrompt reply =
     (if length emailData = 0
      then (Inr ''No emails found matching the workflow criteria.'', [])
      else
        (let emailTexts = join (nl @ nl @ ''---'' @ nl @ nl) (map email_text emailData);
             prompt = customPrompt @ nl @ nl @ ''Emails to summarize:'' @ nl @ nl @ emailTexts;
             request = \<lparr>req_model = ''gpt-5'', req_content = prompt, req_json_object = False,
                        req_max_completion_tokens = 2048\<rparr>
         in (case reply of
               Rejects \<Rightarrow> Inl (Error ''Failed to generate summary'')
             | NoChoices \<Rightarrow> Inl (Error ''Failed to generate summary'')
             | Content content \<Rightarrow>
                 (case content of
                    None \<Rightarrow> Inr ''Summary generation failed.''
                  | Some c \<Rightarrow> if c = [] then Inr ''Summary generation failed.'' else Inr c),
             [request])))"

section \<open>Routes (routes.ts)\<close>

datatype ResBody =
    Message string
  | ExecutionJson WorkflowExecution
  | Classified string "string list"

type_synonym Response = "nat \<times> ResBody"

subsection \<open>POST /api/emails/:id/classify (routes.ts, 129-164)\<close>

text \<open>
  The loop \<^verbatim>\<open>for (const labelId of suggestedLabelIds) await storage.addLabelToEmail(...)\<close>.
  The writes are not in a transaction: when one throws, the earlier ones stay.
\<close>

fun add_suggested ::
    "Env \<Rightarrow> nat \<Rightarrow> db \<Rightarrow> string \<Rightarrow> string \<Rightarrow> string list \<Rightarrow> js_error option \<times> db" where
  "add_suggested env i d userId emailId [] = (None, d)"
| "add_suggested env i d userId emailId (labelId # rest) =
     (case addLabelToEmail d (env_uuid env i) (env_dbNow env)
             \<lparr>iel_emailId = emailId, iel_labelId = labelId, iel_isAuto = True\<rparr> userId of
        Inl e \<Rightarrow> (Some e, d)
      | Inr d' \<Rightarrow> add_suggested env (Suc i) d' userId emailId rest)"

definition classify_route ::
    "(string \<Rightarrow> js_error + json) \<Rightarrow> Env \<Rightarrow> db \<Rightarrow> string \<Rightarrow> string
       \<Rightarrow> Response \<times> db \<times> ChatRequest list" where
  "classify_route JSON_parse env d userId emailId =
     (case getEmailById d emailId userId of
        None \<Rightarrow> ((404, Message ''Email not found''), d, [])
      | Some email \<Rightarrow>
          (let labels = getLabelsByUserId d userId
           in if length labels = 0
              then ((400, Message ''No labels available for classification''), d, [])
              else
                (case classifyEmail JSON_parse (email_subject (ewl_email email))
                        (email_bodyPreview (ewl_email email)) labels (env_reply env) of
                   (Inl e, requests) \<Rightarrow> ((500, Message ''Failed to classify email''), d, requests)
                 | (Inr suggestedLabelIds, requests) \<Rightarrow>
                     (case add_suggested env 0 d userId emailId suggestedLabelIds of
                        (Some e, d') \<Rightarrow>
                          ((500, Message ''Failed to classify email''), d', requests)
                      | (None, d') \<Rightarrow>
                          ((200, Classified ''Email classified'' suggestedLabelIds), d',
                           requests)))))"

subsection \<open>The filter step of POST /api/workflows/:id/execute (routes.ts, 337-345)\<close>

text \<open>
  \<^verbatim>\<open>
  let filteredEmails = allEmails;
  if (filters.labelIds && filters.labelIds.length > 0) {
    filteredEmails = allEmails.filter(email =>
      email.labels.some(el => filters.labelIds.includes(el.label.id)));
  }
  \<close>
  An absent key is falsy, an array (also the empty one) is truthy, so the second
  conjunct decides for a present list.
\<close>

definition filteredEmails :: "Filters \<Rightarrow> EmailWithLabels list \<Rightarrow> EmailWithLabels list" where
  "filteredEmails filters allEmails =
     (case labelIds filters of
        None \<Rightarrow> allEmails
      | Some ids \<Rightarrow>
          if length ids > 0
          then filter (\<lambda>email. list_ex (\<lambda>el. List.member ids (label_id (ell_label el)))
                                       (ewl_labels email)) allEmails
          else allEmails)"

subsection \<open>POST /api/workflows/:id/execute (routes.ts, 328-376)\<close>

text \<open>The Select step: the owner's emails, through the filter of the workflow.\<close>

definition select_step :: "db \<Rightarrow> Workflow \<Rightarrow> EmailWithLabels list" where
  "select_step d workflow =
     (let allEmails = getEmailsByUserId d (workflow_userId workflow)
      in filteredEmails (workflow_filters workflow) allEmails)"

definition to_emailData :: "EmailWithLabels \<Rightarrow> EmailData" where
  "to_emailData e =
     \<lparr>ed_subject = email_subject (ewl_email e), ed_sender = email_sender (ewl_email e),
      ed_bodyPreview = email_bodyPreview (ewl_email e)\<rparr>"

text \<open>
  The handler returns the response, the database after the request and the requests sent
  to the external model. Every exception inside it ends in the \<^verbatim>\<open>catch\<close>, which
  answers 500.
\<close>

definition execute_route ::
    "Env \<Rightarrow> db \<Rightarrow> string \<Rightarrow> string \<Rightarrow> Response \<times> db \<times> ChatRequest list" where
  "execute_route env d userId workflowId =
     (case getWorkflowById d workflowId userId of
        None \<Rightarrow> ((404, Message ''Workflow not found''), d, [])
      | Some workflow \<Rightarrow>
          (let selected = select_step d workflow
           in if length selected = 0
              then ((400, Message ''No emails match the workflow criteria''), d, [])
              else
                (case generateWorkflowSummary (map to_emailData selected)
                        (workflow_prompt workflow) (env_reply env) of
                   (Inl e, requests) \<Rightarrow>
                     ((500, Message ''Failed to execute workflow''), d, requests)
                 | (Inr summary, requests) \<Rightarrow>
                     (case createWorkflowExecution d (env_uuid env 0) (env_dbNow env)
                             \<lparr>iwe_workflowId = workflow_id workflow, iwe_summary = summary,
                              iwe_emailCount = length selected\<rparr> of
                        Inl e \<Rightarrow> ((500, Message ''Failed to execute workflow''), d, requests)
                      | Inr (execution, d1) \<Rightarrow>
                          (let (updated, d2) =
                                 updateWorkflow d1 (workflow_id workflow) userId
                                   (\<lambda>w. w\<lparr>workflow_lastRunAt := Some (env_now env)\<rparr>)
                           in ((200, ExecutionJson execution), d2, requests))))))"

section \<open>The reference filter\<close>

text \<open>
  The reference definition, in the words of the specification: with a label-identifier
  list that is present and non-empty, an email qualifies iff at least one of its assigned
  labels' identifiers appears in the list; otherwise every email passes.
\<close>

definition qualifies :: "string list \<Rightarrow> EmailWithLabels \<Rightarrow> bool" where
  "qualifies ids email = (\<exists>el \<in> set (ewl_labels email). label_id (ell_label el) \<in> set ids)"

definition FilterEvaluator :: "Filters \<Rightarrow> EmailWithLabels list \<Rightarrow> EmailWithLabels list" where
  "FilterEvaluator filters allEmails =
     (if labelIds filters = None \<or> labelIds filters = Some []
      then allEmails
      else [email \<leftarrow> allEmails. qualifies (the (labelIds filters)) email])"

section \<open>The reference comparison\<close>






section \<open>A concrete store\<close>

text \<open>
  The end-to-end scenario of the specification: user \<open>U1\<close> with the label \<open>L1\<close> named
  Work, the email \<open>E1\<close> carrying \<open>L1\<close>, the email \<open>E2\<close> without a label, and a workflow
  filtering on \<open>L1\<close>; beside it a workflow on a label no email carries, and a second
  user without labels.
\<close>

definition demo_account :: EmailAccount where
  "demo_account = \<lparr>account_id = ''A1'', account_userId = ''U1'', account_provider = ''gmail'',
     account_email = ''demo@example.com''\<rparr>"

definition demo_account2 :: EmailAccount where
  "demo_account2 = \<lparr>account_id = ''A2'', account_userId = ''U2'', account_provider = ''gmail'',
     account_email = ''other@example.com''\<rparr>"

definition demo_E1 :: Email where
  "demo_E1 = \<lparr>email_id = ''E1'', email_emailAccountId = ''A1'', email_messageId = ''msg_1'',
     email_subject = ''Project Update: Q4 Planning'', email_sender = ''Sarah Johnson'',
     email_senderEmail = ''sarah.j@company.com'', email_receivedAt = 200,
     email_bodyPreview = ''Hi team'', email_bodyFull = None, email_isRead = False\<rparr>"

definition demo_E2 :: Email where
  "demo_E2 = \<lparr>email_id = ''E2'', email_emailAccountId = ''A1'', email_messageId = ''msg_2'',
     email_subject = ''Team Lunch Tomorrow at 12pm'', email_sender = ''Alex Martinez'',
     email_senderEmail = ''alex.m@company.com'', email_receivedAt = 100,
     email_bodyPreview = ''Hey everyone'', email_bodyFull = None, email_isRead = False\<rparr>"

definition demo_E3 :: Email where
  "demo_E3 = \<lparr>email_id = ''E3'', email_emailAccountId = ''A2'', email_messageId = ''msg_3'',
     email_subject = ''Invoice'', email_sender = ''Accounting Team'',
     email_senderEmail = ''billing@vendor.com'', email_receivedAt = 150,
     email_bodyPreview = ''Your invoice'', email_bodyFull = None, email_isRead = True\<rparr>"

definition demo_L1 :: Label where
  "demo_L1 = \<lparr>label_id = ''L1'', label_userId = ''U1'', label_name = ''Work'',
     label_color = ''239 70% 60%'', label_description = None\<rparr>"

definition demo_L2 :: Label where
  "demo_L2 = \<lparr>label_id = ''L2'', label_userId = ''U1'', label_name = ''Personal'',
     label_color = ''142 70% 60%'', label_description = None\<rparr>"

definition demo_EL1 :: EmailLabel where
  "demo_EL1 = \<lparr>el_id = ''EL1'', el_emailId = ''E1'', el_labelId = ''L1'', el_isAuto = False,
     el_createdAt = Some 250\<rparr>"

definition demo_W1 :: Workflow where
  "demo_W1 = \<lparr>workflow_id = ''W1'', workflow_userId = ''U1'', workflow_name = ''Weekly work'',
     workflow_description = None, workflow_frequency = ''weekly'',
     workflow_filters = \<lparr>labelIds = Some [''L1'']\<rparr>, workflow_prompt = ''Summarize'',
     workflow_isActive = True, workflow_lastRunAt = None, workflow_nextRunAt = Some 1000\<rparr>"

definition demo_W2 :: Workflow where
  "demo_W2 = \<lparr>workflow_id = ''W2'', workflow_userId = ''U1'', workflow_name = ''Personal'',
     workflow_description = None, workflow_frequency = ''biweekly'',
     workflow_filters = \<lparr>labelIds = Some [''L2'']\<rparr>, workflow_prompt = ''Summarize'',
     workflow_isActive = True, workflow_lastRunAt = None, workflow_nextRunAt = Some 2000\<rparr>"

definition demo_db :: db where
  "demo_db = \<lparr>emailAccounts = [demo_account, demo_account2],
     emails = [demo_E2, demo_E1, demo_E3], labels = [demo_L1, demo_L2],
     emailLabels = [demo_EL1], workflows = [demo_W1, demo_W2], workflowExecutions = []\<rparr>"

definition demo_env :: "ChatReply \<Rightarrow> Env" where
  "demo_env reply = \<lparr>env_reply = reply, env_uuid = (\<lambda>i. ''uuid-'' @ replicate i CHR ''x''),
     env_dbNow = 500, env_now = 501\<rparr>"

definition demo_EWL1 :: EmailWithLabels where
  "demo_EWL1 = \<lparr>ewl_email = demo_E1,
     ewl_labels = [\<lparr>ell_emailLabel = demo_EL1, ell_label = demo_L1\<rparr>]\<rparr>"

definition demo_EWL2 :: EmailWithLabels where
  "demo_EWL2 = \<lparr>ewl_email = demo_E2, ewl_labels = []\<rparr>"

definition demo_EWL3 :: EmailWithLabels where
  "demo_EWL3 = \<lparr>ewl_email = demo_E3, ewl_labels = []\<rparr>"

definition demo_assign :: InsertEmailLabel where
  "demo_assign = \<lparr>iel_emailId = ''E2'', iel_labelId = ''L1'', iel_isAuto = False\<rparr>"

definition demo_assigned_once :: db where
  "demo_assigned_once = demo_db\<lparr>emailLabels := [demo_EL1,
     \<lparr>el_id = ''EL2'', el_emailId = ''E2'', el_labelId = ''L1'', el_isAuto = False,
      el_createdAt = Some 600\<rparr>]\<rparr>"

definition demo_assigned_twice :: db where
  "demo_assigned_twice = demo_db\<lparr>emailLabels := [demo_EL1,
     \<lparr>el_id = ''EL2'', el_emailId = ''E2'', el_labelId = ''L1'', el_isAuto = False,
      el_createdAt = Some 600\<rparr>,
     \<lparr>el_id = ''EL3'', el_emailId = ''E2'', el_labelId = ''L1'', el_isAuto = False,
      el_createdAt = Some 601\<rparr>]\<rparr>"

text \<open>
  Two replies of the classifier, \<^verbatim>\<open>{"labels": ["WORK", "Spam"]}\<close> and
  \<^verbatim>\<open>{"labels": ["Work", 5]}\<close>, and a stand-in for \<^verbatim>\<open>JSON.parse\<close> that knows them and
  \<^verbatim>\<open>{}\<close> and throws on every other text.
\<close>

definition reply_WORK_Spam :: string where
  "reply_WORK_Spam = ''{'' @ dq @ ''labels'' @ dq @ '': ['' @ dq @ ''WORK'' @ dq @ '', ''
     @ dq @ ''Spam'' @ dq @ '']}''"

definition reply_Work_5 :: string where
  "reply_Work_5 = ''{'' @ dq @ ''labels'' @ dq @ '': ['' @ dq @ ''Work'' @ dq @ '', 5]}''"

definition demo_parse :: "string \<Rightarrow> js_error + json" where
  "demo_parse s =
     (if s = ''{}'' then Inr (JObj [])
      else if s = reply_WORK_Spam
      then Inr (JObj [(''labels'', JArr [JStr ''WORK'', JStr ''Spam''])])
      else if s = reply_Work_5
      then Inr (JObj [(''labels'', JArr [JStr ''Work'', JNum 5])])
      else Inl SyntaxError)"





text \<open>A summary the model returns with U+0000 inside.\<close>

definition demo_nul_summary :: string where
  "demo_nul_summary = ''a'' @ [CHR 0x00] @ ''b''"

section \<open>Properties\<close>

subsection \<open>The filter\<close>

lemma filteredEmails_refines: "filteredEmails filters allEmails = FilterEvaluator filters allEmails"
  by (cases "labelIds filters")
     (auto simp: filteredEmails_def FilterEvaluator_def qualifies_def list_ex_iff
           intro!: filter_cong)

text \<open>
  C1. The filter step equals the reference definition. With \<open>labelIds\<close> present and
  non-empty the output holds an email iff it is an input email and one of its labels'
  identifiers is a member of \<open>labelIds\<close> (logical OR); with \<open>labelIds\<close> absent or empty
  the output is the input list; the output is always a subsequence of the input.
\<close>

theorem C1_filter_evaluator:
  "filteredEmails filters allEmails = FilterEvaluator filters allEmails
   \<and> (\<forall>ids. labelIds filters = Some ids \<and> ids \<noteq> [] \<longrightarrow>
        (\<forall>email. email \<in> set (filteredEmails filters allEmails)
            \<longleftrightarrow> email \<in> set allEmails
                \<and> (\<exists>el \<in> set (ewl_labels email). label_id (ell_label el) \<in> set ids)))
   \<and> (labelIds filters = None \<or> labelIds filters = Some []
        \<longrightarrow> filteredEmails filters allEmails = allEmails)
   \<and> subseq (filteredEmails filters allEmails) allEmails"
proof -
  have ref: "filteredEmails filters allEmails = FilterEvaluator filters allEmails"
    by (rule filteredEmails_refines)
  have sub: "subseq (filteredEmails filters allEmails) allEmails"
    by (simp add: filteredEmails_def split: option.splits)
  have mem: "\<forall>ids. labelIds filters = Some ids \<and> ids \<noteq> [] \<longrightarrow>
        (\<forall>email. email \<in> set (filteredEmails filters allEmails)
            \<longleftrightarrow> email \<in> set allEmails
                \<and> (\<exists>el \<in> set (ewl_labels email). label_id (ell_label el) \<in> set ids))"
    by (auto simp: filteredEmails_def list_ex_iff)
  have perm: "labelIds filters = None \<or> labelIds filters = Some []
        \<longrightarrow> filteredEmails filters allEmails = allEmails"
    by (auto simp: filteredEmails_def)
  from ref mem perm sub show ?thesis by blast
qed

theorem C1_filter_evaluator_witness:
  "labelIds \<lparr>labelIds = Some [''L1'']\<rparr> = Some [''L1'']
   \<and> demo_EWL1 \<in> set (filteredEmails \<lparr>labelIds = Some [''L1'']\<rparr> [demo_EWL1, demo_EWL2])
   \<and> demo_EWL2 \<notin> set (filteredEmails \<lparr>labelIds = Some [''L1'']\<rparr> [demo_EWL1, demo_EWL2])
   \<and> filteredEmails \<lparr>labelIds = None\<rparr> [demo_EWL1, demo_EWL2] = [demo_EWL1, demo_EWL2]
   \<and> filteredEmails \<lparr>labelIds = Some []\<rparr> [demo_EWL1, demo_EWL2] = [demo_EWL1, demo_EWL2]
   \<and> subseq (filteredEmails \<lparr>labelIds = Some [''L1'']\<rparr> [demo_EWL1, demo_EWL2])
        [demo_EWL1, demo_EWL2]"
proof -
  let ?es = "[demo_EWL1, demo_EWL2]"
  let ?f = "\<lparr>labelIds = Some [''L1'']\<rparr>"
  have in1: "demo_EWL1 \<in> set ?es
      \<and> (\<exists>el \<in> set (ewl_labels demo_EWL1). label_id (ell_label el) \<in> set [''L1''])"
    by code_simp
  have out2: "\<not> (\<exists>el \<in> set (ewl_labels demo_EWL2). label_id (ell_label el) \<in> set [''L1''])"
    by code_simp
  have sel: "labelIds ?f = Some [''L1''] \<and> [''L1''] \<noteq> ([] :: string list)"
    by simp
  have absent: "labelIds \<lparr>labelIds = None\<rparr> = None \<or> labelIds \<lparr>labelIds = None\<rparr> = Some []"
    by simp
  have empty: "labelIds \<lparr>labelIds = Some []\<rparr> = None
      \<or> labelIds \<lparr>labelIds = Some []\<rparr> = Some []"
    by simp
  from sel C1_filter_evaluator [of ?f ?es]
  have iff: "\<forall>email. email \<in> set (filteredEmails ?f ?es)
            \<longleftrightarrow> email \<in> set ?es
                \<and> (\<exists>el \<in> set (ewl_labels email). label_id (ell_label el) \<in> set [''L1''])"
    by blast
  have sub: "subseq (filteredEmails ?f ?es) ?es"
    using C1_filter_evaluator [of ?f ?es] by blast
  have a: "filteredEmails \<lparr>labelIds = None\<rparr> ?es = ?es"
    using absent C1_filter_evaluator [of "\<lparr>labelIds = None\<rparr>" ?es] by blast
  have b: "filteredEmails \<lparr>labelIds = Some []\<rparr> ?es = ?es"
    using empty C1_filter_evaluator [of "\<lparr>labelIds = Some []\<rparr>" ?es] by blast
  have m1: "demo_EWL1 \<in> set (filteredEmails ?f ?es)"
    using iff in1 by blast
  have m2: "demo_EWL2 \<notin> set (filteredEmails ?f ?es)"
    using iff out2 by blast
  from sel m1 m2 a b sub show ?thesis by blast
qed

subsection \<open>Running a workflow\<close>

lemma first_row_filter_Some:
  "first_row (filter P xs) = Some x \<Longrightarrow> x \<in> set xs \<and> P x"
proof -
  assume a: "first_row (filter P xs) = Some x"
  then obtain rest where "filter P xs = x # rest"
    by (auto simp: first_row_def split: list.splits)
  then have "x \<in> set (filter P xs)" by simp
  then show ?thesis by simp
qed



lemma first_row_update:
  assumes keep: "\<And>w. hit (f w) = hit w"
  shows "first_row (filter hit (map (\<lambda>w. if hit w then f w else w) xs))
           = map_option f (first_row (filter hit xs))"
proof (induction xs)
  case Nil
  show ?case by (simp add: first_row_def)
next
  case (Cons w ws)
  show ?case
  proof (cases "hit w")
    case True
    then show ?thesis by (simp add: first_row_def keep)
  next
    case False
    with Cons show ?thesis by simp
  qed
qed

lemma getWorkflowById_Some:
  "getWorkflowById d workflowId userId = Some w \<Longrightarrow>
     w \<in> set (workflows d) \<and> workflow_id w = workflowId \<and> workflow_userId w = userId"
  unfolding getWorkflowById_def by (drule first_row_filter_Some) simp


lemma getWorkflowById_after_update:
  "getWorkflowById (snd (updateWorkflow d workflowId userId
        (\<lambda>w. w\<lparr>workflow_lastRunAt := t\<rparr>))) workflowId userId
     = map_option (\<lambda>w. w\<lparr>workflow_lastRunAt := t\<rparr>) (getWorkflowById d workflowId userId)"
  by (simp add: getWorkflowById_def updateWorkflow_def Let_def first_row_update)

lemma getWorkflowById_executions_irrelevant:
  "getWorkflowById (d\<lparr>workflowExecutions := xs\<rparr>) workflowId userId
     = getWorkflowById d workflowId userId"
  by (simp add: getWorkflowById_def)

lemma execute_route_recorded:
  assumes load: "getWorkflowById d workflowId userId = Some workflow"
      and nonempty: "select_step d workflow \<noteq> []"
      and summarized: "generateWorkflowSummary (map to_emailData (select_step d workflow))
                         (workflow_prompt workflow) (env_reply env) = (Inr summary, requests)"
      and storable: "pg_text summary"
      and fresh: "env_uuid env 0 \<notin> execution_id ` set (workflowExecutions d)"
  shows "execute_route env d userId workflowId =
           ((200, ExecutionJson
                    \<lparr>execution_id = env_uuid env 0, execution_workflowId = workflow_id workflow,
                     execution_summary = summary,
                     execution_emailCount = length (select_step d workflow),
                     execution_executedAt = Some (env_dbNow env)\<rparr>),
            snd (updateWorkflow
                   (d\<lparr>workflowExecutions := workflowExecutions d @
                        [\<lparr>execution_id = env_uuid env 0,
                          execution_workflowId = workflow_id workflow,
                          execution_summary = summary,
                          execution_emailCount = length (select_step d workflow),
                          execution_executedAt = Some (env_dbNow env)\<rparr>]\<rparr>)
                   (workflow_id workflow) userId
                   (\<lambda>w. w\<lparr>workflow_lastRunAt := Some (env_now env)\<rparr>)),
            requests)"
proof -
  from load have w: "workflow \<in> set (workflows d)"
    by (simp add: getWorkflowById_Some)
  from fresh have nodup: "\<not> (\<exists>x \<in> set (workflowExecutions d). execution_id x = env_uuid env 0)"
    by (auto simp: image_iff)
  have fk: "\<exists>w \<in> set (workflows d). workflow_id w = workflow_id workflow"
    using w by blast
  show ?thesis
    using nonempty
    by (simp add: execute_route_def load summarized createWorkflowExecution_def storable
          fk nodup Let_def split_def del: ex_simps bex_simps)
qed

lemma execute_route_refused:
  assumes load: "getWorkflowById d workflowId userId = Some workflow"
      and nonempty: "select_step d workflow \<noteq> []"
      and summarized: "generateWorkflowSummary (map to_emailData (select_step d workflow))
                         (workflow_prompt workflow) (env_reply env) = (Inr summary, requests)"
      and refused: "\<not> pg_text summary"
  shows "execute_route env d userId workflowId
           = ((500, Message ''Failed to execute workflow''), d, requests)"
  using nonempty
  by (simp add: execute_route_def load summarized createWorkflowExecution_def refused Let_def)


text \<open>
  The summary call succeeds with a text that holds U+0000: the workflow loads, the
  selection is not empty and \<^verbatim>\<open>generateWorkflowSummary\<close> resolves to the text, yet the
  insert is refused, the run answers 500 and no execution exists afterwards.
\<close>

theorem C2_nul_summary_counterexample:
  "getWorkflowById demo_db ''W1'' ''U1'' = Some demo_W1
   \<and> select_step demo_db demo_W1 \<noteq> []
   \<and> fst (generateWorkflowSummary (map to_emailData (select_step demo_db demo_W1))
           (workflow_prompt demo_W1) (env_reply (demo_env (Content (Some demo_nul_summary)))))
        = Inr demo_nul_summary
   \<and> env_uuid (demo_env (Content (Some demo_nul_summary))) 0
        \<notin> execution_id ` set (workflowExecutions demo_db)
   \<and> fst (execute_route (demo_env (Content (Some demo_nul_summary))) demo_db ''U1'' ''W1'')
        = (500, Message ''Failed to execute workflow'')
   \<and> workflowExecutions
        (fst (snd (execute_route (demo_env (Content (Some demo_nul_summary))) demo_db
                     ''U1'' ''W1''))) = []"
  by code_simp

text \<open>
  C2. A run whose workflow loads, whose selection is non-empty and whose summary call
  succeeds with a text the database stores (one without U+0000) answers 200 with the
  execution it created: exactly one row is appended to the executions, with the number
  of selected emails and the returned summary text, and the workflow then carries the
  \<^verbatim>\<open>new Date()\<close> of the run as its last-run timestamp, which is no earlier than any
  clock reading \<open>t_before\<close> taken before it. The identifier the database generates is
  fresh. When the summary is a text the database refuses, the run answers 500 and the
  database is as it was.
\<close>

theorem C2_execute_records_run:
  assumes load: "getWorkflowById d workflowId userId = Some workflow"
      and nonempty: "select_step d workflow \<noteq> []"
      and summarized: "fst (generateWorkflowSummary (map to_emailData (select_step d workflow))
                              (workflow_prompt workflow) (env_reply env)) = Inr summary"
      and fresh: "env_uuid env 0 \<notin> execution_id ` set (workflowExecutions d)"
      and clock: "t_before \<le> env_now env"
  shows "(pg_text summary \<longrightarrow>
           (\<exists>execution d' requests workflow'.
              execute_route env d userId workflowId
                = ((200, ExecutionJson execution), d', requests)
            \<and> workflowExecutions d' = workflowExecutions d @ [execution]
            \<and> execution_workflowId execution = workflow_id workflow
            \<and> execution_emailCount execution = length (select_step d workflow)
            \<and> execution_summary execution = summary
            \<and> getWorkflowById d' workflowId userId = Some workflow'
            \<and> workflow' = workflow\<lparr>workflow_lastRunAt := Some (env_now env)\<rparr>
            \<and> t_before \<le> the (workflow_lastRunAt workflow')))
         \<and> (\<not> pg_text summary \<longrightarrow>
               fst (execute_route env d userId workflowId)
                 = (500, Message ''Failed to execute workflow'')
             \<and> fst (snd (execute_route env d userId workflowId)) = d)"
proof -
  obtain requests where s: "generateWorkflowSummary (map to_emailData (select_step d workflow))
        (workflow_prompt workflow) (env_reply env) = (Inr summary, requests)"
    using summarized by (cases "generateWorkflowSummary (map to_emailData (select_step d workflow))
        (workflow_prompt workflow) (env_reply env)") simp
  let ?x = "\<lparr>execution_id = env_uuid env 0, execution_workflowId = workflow_id workflow,
             execution_summary = summary,
             execution_emailCount = length (select_step d workflow),
             execution_executedAt = Some (env_dbNow env)\<rparr>"
  let ?d1 = "d\<lparr>workflowExecutions := workflowExecutions d @ [?x]\<rparr>"
  let ?d' = "snd (updateWorkflow ?d1 (workflow_id workflow) userId
                   (\<lambda>w. w\<lparr>workflow_lastRunAt := Some (env_now env)\<rparr>))"
  have wid: "workflow_id workflow = workflowId"
    using load by (simp add: getWorkflowById_Some)
  have execs: "workflowExecutions ?d' = workflowExecutions d @ [?x]"
    by (simp add: updateWorkflow_def Let_def)
  have after: "getWorkflowById ?d' workflowId userId
                 = Some (workflow\<lparr>workflow_lastRunAt := Some (env_now env)\<rparr>)"
    by (simp add: wid getWorkflowById_after_update getWorkflowById_executions_irrelevant load)
  have later: "t_before \<le> the (workflow_lastRunAt
                 (workflow\<lparr>workflow_lastRunAt := Some (env_now env)\<rparr>))"
    using clock by simp
  have recorded: "\<exists>execution d' requests workflow'.
              execute_route env d userId workflowId
                = ((200, ExecutionJson execution), d', requests)
            \<and> workflowExecutions d' = workflowExecutions d @ [execution]
            \<and> execution_workflowId execution = workflow_id workflow
            \<and> execution_emailCount execution = length (select_step d workflow)
            \<and> execution_summary execution = summary
            \<and> getWorkflowById d' workflowId userId = Some workflow'
            \<and> workflow' = workflow\<lparr>workflow_lastRunAt := Some (env_now env)\<rparr>
            \<and> t_before \<le> the (workflow_lastRunAt workflow')"
    if storable: "pg_text summary"
  proof -
    have route: "execute_route env d userId workflowId = ((200, ExecutionJson ?x), ?d', requests)"
      by (rule execute_route_recorded [OF load nonempty s storable fresh])
    from route execs after later show ?thesis
      by (intro exI [of _ ?x] exI [of _ ?d'] exI [of _ requests]
                exI [of _ "workflow\<lparr>workflow_lastRunAt := Some (env_now env)\<rparr>"]) simp
  qed
  have refused: "fst (execute_route env d userId workflowId)
                 = (500, Message ''Failed to execute workflow'')
             \<and> fst (snd (execute_route env d userId workflowId)) = d"
    if "\<not> pg_text summary"
    by (simp add: execute_route_refused [OF load nonempty s that])
  from recorded refused show ?thesis by blast
qed

theorem C2_execute_records_run_witness:
  "getWorkflowById demo_db ''W1'' ''U1'' = Some demo_W1
   \<and> select_step demo_db demo_W1 \<noteq> []
   \<and> pg_text ''Two updates.''
   \<and> (400::nat) \<le> env_now (demo_env (Content (Some ''Two updates.'')))
   \<and> (\<exists>execution d' requests workflow'.
         execute_route (demo_env (Content (Some ''Two updates.''))) demo_db ''U1'' ''W1''
           = ((200, ExecutionJson execution), d', requests)
       \<and> workflowExecutions d' = workflowExecutions demo_db @ [execution]
       \<and> execution_workflowId execution = workflow_id demo_W1
       \<and> execution_emailCount execution = length (select_step demo_db demo_W1)
       \<and> execution_summary execution = ''Two updates.''
       \<and> getWorkflowById d' ''W1'' ''U1'' = Some workflow'
       \<and> workflow' = demo_W1\<lparr>workflow_lastRunAt := Some (env_now (demo_env (Content (Some ''Two updates.''))))\<rparr>
       \<and> 400 \<le> the (workflow_lastRunAt workflow'))
   \<and> \<not> pg_text demo_nul_summary
   \<and> fst (execute_route (demo_env (Content (Some demo_nul_summary))) demo_db ''U1'' ''W1'')
        = (500, Message ''Failed to execute workflow'')
   \<and> fst (snd (execute_route (demo_env (Content (Some demo_nul_summary))) demo_db
                  ''U1'' ''W1'')) = demo_db"
proof -
  let ?env = "demo_env (Content (Some ''Two updates.''))"
  let ?nul = "demo_env (Content (Some demo_nul_summary))"
  have load: "getWorkflowById demo_db ''W1'' ''U1'' = Some demo_W1"
    by code_simp
  have nonempty: "select_step demo_db demo_W1 \<noteq> []"
    by code_simp
  have summarized: "fst (generateWorkflowSummary (map to_emailData (select_step demo_db demo_W1))
                           (workflow_prompt demo_W1) (env_reply ?env)) = Inr ''Two updates.''"
    by code_simp
  have summarized_nul: "fst (generateWorkflowSummary
                           (map to_emailData (select_step demo_db demo_W1))
                           (workflow_prompt demo_W1) (env_reply ?nul)) = Inr demo_nul_summary"
    by code_simp
  have fresh: "env_uuid ?env 0 \<notin> execution_id ` set (workflowExecutions demo_db)"
    by code_simp
  have fresh_nul: "env_uuid ?nul 0 \<notin> execution_id ` set (workflowExecutions demo_db)"
    by code_simp
  have clock: "(400::nat) \<le> env_now ?env"
    by code_simp
  have clock_nul: "(400::nat) \<le> env_now ?nul"
    by code_simp
  have storable: "pg_text ''Two updates.''"
    by code_simp
  have refused: "\<not> pg_text demo_nul_summary"
    by code_simp
  from load nonempty clock storable refused
    C2_execute_records_run [OF load nonempty summarized fresh clock]
    C2_execute_records_run [OF load nonempty summarized_nul fresh_nul clock_nul]
  show ?thesis by blast
qed

text \<open>
  C4. A run whose filter selects no email answers 400 (empty selection), sends no request
  to the external model and leaves the database as it was: no execution is written and
  nothing else changes.
\<close>

theorem C4_empty_selection_rejected:
  assumes load: "getWorkflowById d workflowId userId = Some workflow"
      and empty: "select_step d workflow = []"
  shows "execute_route env d userId workflowId
           = ((400, Message ''No emails match the workflow criteria''), d, [])"
  by (simp add: execute_route_def load empty)

theorem C4_empty_selection_rejected_witness:
  "getWorkflowById demo_db ''W2'' ''U1'' = Some demo_W2
   \<and> select_step demo_db demo_W2 = []
   \<and> execute_route (demo_env (Content (Some ''Two updates.''))) demo_db ''U1'' ''W2''
        = ((400, Message ''No emails match the workflow criteria''), demo_db, [])"
proof -
  have load: "getWorkflowById demo_db ''W2'' ''U1'' = Some demo_W2"
    by code_simp
  have empty: "select_step demo_db demo_W2 = []"
    by code_simp
  from load empty C4_empty_selection_rejected [OF load empty] show ?thesis by simp
qed

text \<open>
  C5. When the request to the external model fails, \<^verbatim>\<open>generateWorkflowSummary\<close> rejects
  with its error, the run answers 500, and the database is as it was: no execution is
  created and the last-run timestamp is not touched.
\<close>

theorem C5_summary_failure_persists_nothing:
  assumes load: "getWorkflowById d workflowId userId = Some workflow"
      and nonempty: "select_step d workflow \<noteq> []"
      and fails: "env_reply env = Rejects \<or> env_reply env = NoChoices"
  shows "fst (generateWorkflowSummary (map to_emailData (select_step d workflow))
                (workflow_prompt workflow) (env_reply env))
           = Inl (Error ''Failed to generate summary'')
         \<and> fst (execute_route env d userId workflowId)
             = (500, Message ''Failed to execute workflow'')
         \<and> fst (snd (execute_route env d userId workflowId)) = d"
  using nonempty fails
  by (auto simp: execute_route_def load generateWorkflowSummary_def Let_def)

theorem C5_summary_failure_persists_nothing_witness:
  "getWorkflowById demo_db ''W1'' ''U1'' = Some demo_W1
   \<and> select_step demo_db demo_W1 \<noteq> []
   \<and> env_reply (demo_env Rejects) = Rejects
   \<and> fst (execute_route (demo_env Rejects) demo_db ''U1'' ''W1'')
        = (500, Message ''Failed to execute workflow'')
   \<and> fst (snd (execute_route (demo_env Rejects) demo_db ''U1'' ''W1'')) = demo_db"
proof -
  have load: "getWorkflowById demo_db ''W1'' ''U1'' = Some demo_W1"
    by code_simp
  have nonempty: "select_step demo_db demo_W1 \<noteq> []"
    by code_simp
  have r: "env_reply (demo_env Rejects) = Rejects"
    by (simp add: demo_env_def)
  from r have fails: "env_reply (demo_env Rejects) = Rejects \<or> env_reply (demo_env Rejects) = NoChoices"
    by simp
  from load nonempty r C5_summary_failure_persists_nothing [OF load nonempty fails]
  show ?thesis by simp
qed



subsection \<open>Classification\<close>



















text \<open>
  A reply whose \<^verbatim>\<open>labels\<close> array holds a value that is not a string, here
  \<^verbatim>\<open>{"labels": ["Work", 5]}\<close>: the callback throws when \<^verbatim>\<open>some\<close> reaches the number, which
  it does for the candidate Personal and not for the candidate Work alone, and the
  \<^verbatim>\<open>catch\<close> answers with the empty array.
\<close>

lemma classify_mixed_array:
  "fst (classifyEmail demo_parse ''subject'' ''body'' [demo_L1, demo_L2]
          (Content (Some reply_Work_5))) = Inr []
   \<and> fst (classifyEmail demo_parse ''subject'' ''body'' [demo_L1]
          (Content (Some reply_Work_5))) = Inr [''L1'']"
  by code_simp

lemma classify_try_failure:
  assumes "reply = Rejects \<or> reply = NoChoices
           \<or> (\<exists>content e. reply = Content content \<and> JSON_parse (or_empty_object content) = Inl e)"
  shows "\<exists>e. classify_try JSON_parse availableLabels reply = Inl e"
  using assms by (auto simp: classify_try_def)

lemma classifyEmail_caught:
  "classify_try JSON_parse availableLabels reply = Inl e \<Longrightarrow>
     fst (classifyEmail JSON_parse emailSubject emailBody availableLabels reply) = Inr []"
  by (simp add: classifyEmail_def Let_def)

lemma add_suggested_none: "add_suggested env i d userId emailId [] = (None, d)"
  by simp

text \<open>
  C8. When the call to the external classifier fails (the request is rejected, or the
  reply has no choice) or its content does not parse, \<^verbatim>\<open>classifyEmail\<close> resolves to the
  empty array instead of rejecting; the classify route then leaves the database as it
  was, so no association is created, and answers 200 with no label identifiers.
\<close>

theorem C8_classifier_failure_swallowed:
  assumes failure: "reply = Rejects \<or> reply = NoChoices
           \<or> (\<exists>content e. reply = Content content \<and> JSON_parse (or_empty_object content) = Inl e)"
      and env: "env_reply env = reply"
  shows "fst (classifyEmail JSON_parse emailSubject emailBody availableLabels reply) = Inr []
         \<and> fst (snd (classify_route JSON_parse env d userId emailId)) = d
         \<and> (\<forall>email. getEmailById d emailId userId = Some email
                    \<and> getLabelsByUserId d userId \<noteq> []
               \<longrightarrow> fst (classify_route JSON_parse env d userId emailId)
                     = (200, Classified ''Email classified'' []))"
proof -
  have caught: "fst (classifyEmail JSON_parse s b ls reply) = Inr []" for s b ls
    using classify_try_failure [OF failure] classifyEmail_caught by blast
  have route: "fst (snd (classify_route JSON_parse env d userId emailId)) = d
         \<and> (\<forall>email. getEmailById d emailId userId = Some email
                    \<and> getLabelsByUserId d userId \<noteq> []
               \<longrightarrow> fst (classify_route JSON_parse env d userId emailId)
                     = (200, Classified ''Email classified'' []))"
  proof (cases "getEmailById d emailId userId")
    case None
    then show ?thesis by (simp add: classify_route_def)
  next
    case (Some email)
    let ?c = "classifyEmail JSON_parse (email_subject (ewl_email email))
                (email_bodyPreview (ewl_email email)) (getLabelsByUserId d userId) reply"
    obtain requests where c: "?c = (Inr [], requests)"
      using caught [of "email_subject (ewl_email email)" "email_bodyPreview (ewl_email email)"
                       "getLabelsByUserId d userId"]
      by (cases ?c) simp
    show ?thesis
      by (simp add: classify_route_def Some env c Let_def)
  qed
  from caught route show ?thesis by blast
qed

theorem C8_classifier_failure_swallowed_witness:
  "env_reply (demo_env Rejects) = Rejects
   \<and> fst (classifyEmail demo_parse ''subject'' ''body'' [demo_L1, demo_L2] Rejects) = Inr []
   \<and> fst (snd (classify_route demo_parse (demo_env Rejects) demo_db ''U1'' ''E1'')) = demo_db
   \<and> fst (classify_route demo_parse (demo_env Rejects) demo_db ''U1'' ''E1'')
        = (200, Classified ''Email classified'' [])
   \<and> demo_parse (or_empty_object (Some ''Sure! Here are the labels'')) = Inl SyntaxError
   \<and> fst (classifyEmail demo_parse ''subject'' ''body'' [demo_L1, demo_L2]
           (Content (Some ''Sure! Here are the labels''))) = Inr []"
proof -
  have env: "env_reply (demo_env Rejects) = Rejects"
    by (simp add: demo_env_def)
  have found: "getEmailById demo_db ''E1'' ''U1'' = Some demo_EWL1"
    by code_simp
  have labelled: "getLabelsByUserId demo_db ''U1'' \<noteq> []"
    by code_simp
  have unparseable: "demo_parse (or_empty_object (Some ''Sure! Here are the labels''))
                       = Inl SyntaxError"
    by code_simp
  have f1: "Rejects = Rejects \<or> Rejects = NoChoices
           \<or> (\<exists>content e. Rejects = Content content
                 \<and> demo_parse (or_empty_object content) = Inl e)"
    by simp
  have f2: "Content (Some ''Sure! Here are the labels'') = Rejects
           \<or> Content (Some ''Sure! Here are the labels'') = NoChoices
           \<or> (\<exists>content e. Content (Some ''Sure! Here are the labels'') = Content content
                 \<and> demo_parse (or_empty_object content) = Inl e)"
    using unparseable by blast
  have e2: "env_reply (demo_env (Content (Some ''Sure! Here are the labels'')))
              = Content (Some ''Sure! Here are the labels'')"
    by (simp add: demo_env_def)
  from env found labelled unparseable
    C8_classifier_failure_swallowed [OF f1 env,
      of "''subject''" "''body''" "[demo_L1, demo_L2]" demo_db "''U1''" "''E1''"]
    C8_classifier_failure_swallowed [OF f2 e2,
      of "''subject''" "''body''" "[demo_L1, demo_L2]" demo_db "''U1''" "''E1''"]
  show ?thesis by blast
qed

lemma getLabelsByUserId_empty:
  "(getLabelsByUserId d userId = []) = (\<forall>l \<in> set (labels d). label_userId l \<noteq> userId)"
proof -
  have "(getLabelsByUserId d userId = [])
          = (length [l \<leftarrow> labels d. label_userId l = userId] = 0)"
    unfolding getLabelsByUserId_def by (metis length_0_conv length_sort)
  then show ?thesis by (simp add: filter_empty_conv)
qed

text \<open>
  C9. \<^verbatim>\<open>classifyEmail\<close> with no candidate label resolves to the empty array and sends no
  request. For a user without labels the classify route sends no request and changes
  nothing: it answers 400, "No labels available for classification", for an email of the
  user, and 404 when the email is not found.
\<close>

theorem C9_no_labels_no_call:
  "classifyEmail JSON_parse emailSubject emailBody [] reply = (Inr [], [])
   \<and> ((\<forall>l \<in> set (labels d). label_userId l \<noteq> userId) \<longrightarrow>
         snd (snd (classify_route JSON_parse env d userId emailId)) = []
       \<and> fst (snd (classify_route JSON_parse env d userId emailId)) = d
       \<and> (\<forall>email. getEmailById d emailId userId = Some email \<longrightarrow>
             fst (classify_route JSON_parse env d userId emailId)
               = (400, Message ''No labels available for classification''))
       \<and> (getEmailById d emailId userId = None \<longrightarrow>
             fst (classify_route JSON_parse env d userId emailId)
               = (404, Message ''Email not found'')))"
proof -
  have direct: "classifyEmail JSON_parse emailSubject emailBody [] reply = (Inr [], [])"
    by (simp add: classifyEmail_def)
  have route: "(\<forall>l \<in> set (labels d). label_userId l \<noteq> userId) \<longrightarrow>
         snd (snd (classify_route JSON_parse env d userId emailId)) = []
       \<and> fst (snd (classify_route JSON_parse env d userId emailId)) = d
       \<and> (\<forall>email. getEmailById d emailId userId = Some email \<longrightarrow>
             fst (classify_route JSON_parse env d userId emailId)
               = (400, Message ''No labels available for classification''))
       \<and> (getEmailById d emailId userId = None \<longrightarrow>
             fst (classify_route JSON_parse env d userId emailId)
               = (404, Message ''Email not found''))"
  proof
    assume "\<forall>l \<in> set (labels d). label_userId l \<noteq> userId"
    then have none: "getLabelsByUserId d userId = []"
      by (simp add: getLabelsByUserId_empty)
    show "snd (snd (classify_route JSON_parse env d userId emailId)) = []
       \<and> fst (snd (classify_route JSON_parse env d userId emailId)) = d
       \<and> (\<forall>email. getEmailById d emailId userId = Some email \<longrightarrow>
             fst (classify_route JSON_parse env d userId emailId)
               = (400, Message ''No labels available for classification''))
       \<and> (getEmailById d emailId userId = None \<longrightarrow>
             fst (classify_route JSON_parse env d userId emailId)
               = (404, Message ''Email not found''))"
      by (cases "getEmailById d emailId userId") (simp_all add: classify_route_def none)
  qed
  from direct route show ?thesis by blast
qed

theorem C9_no_labels_no_call_witness:
  "getLabelsByUserId demo_db ''U2'' = []
   \<and> (\<exists>email. getEmailById demo_db ''E3'' ''U2'' = Some email)
   \<and> classify_route demo_parse (demo_env (Content (Some reply_WORK_Spam))) demo_db ''U2'' ''E3''
        = ((400, Message ''No labels available for classification''), demo_db, [])
   \<and> classifyEmail demo_parse ''subject'' ''body'' [] (Content (Some reply_WORK_Spam))
        = (Inr [], [])"
proof -
  let ?env = "demo_env (Content (Some reply_WORK_Spam))"
  have nolabels: "\<forall>l \<in> set (labels demo_db). label_userId l \<noteq> ''U2''"
    by code_simp
  have none: "getLabelsByUserId demo_db ''U2'' = []"
    by code_simp
  have found: "getEmailById demo_db ''E3'' ''U2'' = Some demo_EWL3"
    by code_simp
  from C9_no_labels_no_call [of demo_parse "''subject''" "''body''"
         "Content (Some reply_WORK_Spam)" demo_db "''U2''" ?env "''E3''"] nolabels found
  have r: "snd (snd (classify_route demo_parse ?env demo_db ''U2'' ''E3'')) = []
       \<and> fst (snd (classify_route demo_parse ?env demo_db ''U2'' ''E3'')) = demo_db
       \<and> fst (classify_route demo_parse ?env demo_db ''U2'' ''E3'')
               = (400, Message ''No labels available for classification'')
       \<and> classifyEmail demo_parse ''subject'' ''body'' [] (Content (Some reply_WORK_Spam))
        = (Inr [], [])"
    by blast
  then have "classify_route demo_parse ?env demo_db ''U2'' ''E3''
        = ((400, Message ''No labels available for classification''), demo_db, [])"
    by (metis prod.collapse)
  with none found r show ?thesis by blast
qed

subsection \<open>The summary\<close>

lemma generateWorkflowSummary_fallback:
  assumes "emailData \<noteq> []" and "reply = Content None \<or> reply = Content (Some [])"
  shows "fst (generateWorkflowSummary emailData customPrompt reply)
           = Inr ''Summary generation failed.''"
  using assms by (auto simp: generateWorkflowSummary_def Let_def)

text \<open>
  C10. \<^verbatim>\<open>generateWorkflowSummary\<close> never resolves to the empty string. When the call
  succeeds with null or empty content it resolves to "Summary generation failed.", which
  the execute route then stores as the summary of the execution it creates; called with
  no email it resolves to "No emails found matching the workflow criteria." and sends no
  request.
\<close>

theorem C10_summary_never_empty:
  "fst (generateWorkflowSummary emailData customPrompt reply) \<noteq> Inr []
   \<and> (emailData \<noteq> [] \<and> (reply = Content None \<or> reply = Content (Some []))
        \<longrightarrow> fst (generateWorkflowSummary emailData customPrompt reply)
              = Inr ''Summary generation failed.'')
   \<and> generateWorkflowSummary [] customPrompt reply
        = (Inr ''No emails found matching the workflow criteria.'', [])
   \<and> (\<forall>workflow.
          getWorkflowById d workflowId userId = Some workflow
          \<and> select_step d workflow \<noteq> []
          \<and> (env_reply env = Content None \<or> env_reply env = Content (Some []))
          \<and> env_uuid env 0 \<notin> execution_id ` set (workflowExecutions d)
        \<longrightarrow> (\<exists>execution d' requests.
               execute_route env d userId workflowId
                 = ((200, ExecutionJson execution), d', requests)
               \<and> execution_summary execution = ''Summary generation failed.''
               \<and> execution \<in> set (workflowExecutions d')))"
proof -
  have nonempty: "fst (generateWorkflowSummary emailData customPrompt reply) \<noteq> Inr []"
    by (auto simp: generateWorkflowSummary_def Let_def split: ChatReply.splits option.splits)
  have fallback: "emailData \<noteq> [] \<and> (reply = Content None \<or> reply = Content (Some []))
        \<longrightarrow> fst (generateWorkflowSummary emailData customPrompt reply)
              = Inr ''Summary generation failed.''"
    using generateWorkflowSummary_fallback by blast
  have direct: "generateWorkflowSummary [] customPrompt reply
        = (Inr ''No emails found matching the workflow criteria.'', [])"
    by (simp add: generateWorkflowSummary_def)
  have persisted: "\<exists>execution d' requests.
               execute_route env d userId workflowId
                 = ((200, ExecutionJson execution), d', requests)
               \<and> execution_summary execution = ''Summary generation failed.''
               \<and> execution \<in> set (workflowExecutions d')"
    if load: "getWorkflowById d workflowId userId = Some workflow"
      and sel: "select_step d workflow \<noteq> []"
      and reply: "env_reply env = Content None \<or> env_reply env = Content (Some [])"
      and fresh: "env_uuid env 0 \<notin> execution_id ` set (workflowExecutions d)"
    for workflow
  proof -
    let ?g = "generateWorkflowSummary (map to_emailData (select_step d workflow))
                (workflow_prompt workflow) (env_reply env)"
    from sel have "map to_emailData (select_step d workflow) \<noteq> []"
      by simp
    from generateWorkflowSummary_fallback [OF this reply]
    have "fst ?g = Inr ''Summary generation failed.''" .
    then have "?g = (Inr ''Summary generation failed.'', snd ?g)"
      by (metis prod.collapse)
    then obtain requests where g: "?g = (Inr ''Summary generation failed.'', requests)" ..
    have storable: "pg_text ''Summary generation failed.''"
      by (simp add: pg_text_def)
    show ?thesis
      unfolding execute_route_recorded [OF load sel g storable fresh]
      by (simp add: updateWorkflow_def Let_def)
  qed
  from nonempty fallback direct persisted show ?thesis by blast
qed

theorem C10_summary_never_empty_witness:
  "select_step demo_db demo_W1 \<noteq> []
   \<and> fst (generateWorkflowSummary (map to_emailData (select_step demo_db demo_W1))
           ''Summarize'' (Content None)) = Inr ''Summary generation failed.''
   \<and> fst (generateWorkflowSummary (map to_emailData (select_step demo_db demo_W1))
           ''Summarize'' (Content (Some []))) = Inr ''Summary generation failed.''
   \<and> generateWorkflowSummary [] ''Summarize'' Rejects
        = (Inr ''No emails found matching the workflow criteria.'', [])
   \<and> (\<exists>execution d' requests.
         execute_route (demo_env (Content None)) demo_db ''U1'' ''W1''
           = ((200, ExecutionJson execution), d', requests)
         \<and> execution_summary execution = ''Summary generation failed.''
         \<and> execution \<in> set (workflowExecutions d'))"
proof -
  let ?data = "map to_emailData (select_step demo_db demo_W1)"
  have load: "getWorkflowById demo_db ''W1'' ''U1'' = Some demo_W1"
    by code_simp
  have sel: "select_step demo_db demo_W1 \<noteq> []"
    by code_simp
  then have data: "?data \<noteq> []"
    by simp
  have reply: "env_reply (demo_env (Content None)) = Content None"
    by (simp add: demo_env_def)
  have fresh: "env_uuid (demo_env (Content None)) 0
                 \<notin> execution_id ` set (workflowExecutions demo_db)"
    by code_simp
  from load sel data reply fresh
    C10_summary_never_empty [of ?data "''Summarize''" "Content None"
       demo_db "''W1''" "''U1''" "demo_env (Content None)"]
    C10_summary_never_empty [of ?data "''Summarize''" "Content (Some [])"
       demo_db "''W1''" "''U1''" "demo_env (Content None)"]
    C10_summary_never_empty [of "[]" "''Summarize''" Rejects
       demo_db "''W1''" "''U1''" "demo_env (Content None)"]
  show ?thesis by blast
qed


subsection \<open>Assigning a label\<close>

text \<open>
  Whether \<^verbatim>\<open>getEmailById\<close> finds an email depends on the emails and the accounts only:
  the left joins never drop a row.
\<close>

lemma join_labels_rows:
  "join_labels d e a el \<noteq> []
   \<and> (\<forall>r \<in> set (join_labels d e a el). row_email r = e \<and> row_account r = a)"
  by (auto simp: join_labels_def Let_def)

lemma join_emailLabels_rows:
  "join_emailLabels d e a \<noteq> []
   \<and> (\<forall>r \<in> set (join_emailLabels d e a). row_email r = e \<and> row_account r = a)"
proof (cases "[el \<leftarrow> emailLabels d. email_id e = el_emailId el]")
  case Nil
  then show ?thesis by (simp add: join_emailLabels_def)
next
  case (Cons el els)
  have "join_labels d e a el \<noteq> []"
    using join_labels_rows by blast
  with Cons show ?thesis
    using join_labels_rows by (auto simp: join_emailLabels_def)
qed

lemma joined_rows_iff:
  "(\<exists>r \<in> set (joined_rows d). row_email r = e \<and> row_account r = a)
     = (e \<in> set (emails d) \<and> a \<in> set (emailAccounts d)
        \<and> email_emailAccountId e = account_id a)"
proof
  assume "\<exists>r \<in> set (joined_rows d). row_email r = e \<and> row_account r = a"
  then obtain r e' a' where r: "r \<in> set (join_emailLabels d e' a')"
      and e': "e' \<in> set (emails d)" and a': "a' \<in> set (emailAccounts d)"
      and j: "email_emailAccountId e' = account_id a'"
      and eq: "row_email r = e" "row_account r = a"
    by (auto simp: joined_rows_def)
  from r join_emailLabels_rows have "row_email r = e' \<and> row_account r = a'"
    by blast
  with eq e' a' j show "e \<in> set (emails d) \<and> a \<in> set (emailAccounts d)
        \<and> email_emailAccountId e = account_id a"
    by simp
next
  assume h: "e \<in> set (emails d) \<and> a \<in> set (emailAccounts d)
        \<and> email_emailAccountId e = account_id a"
  from join_emailLabels_rows obtain r where r: "r \<in> set (join_emailLabels d e a)"
    by (meson last_in_set)
  with join_emailLabels_rows have "row_email r = e \<and> row_account r = a"
    by blast
  moreover from h r have "r \<in> set (joined_rows d)"
    by (auto simp: joined_rows_def)
  ultimately show "\<exists>r \<in> set (joined_rows d). row_email r = e \<and> row_account r = a"
    by blast
qed

lemma getEmailById_found:
  "(getEmailById d emailId userId \<noteq> None)
     = (\<exists>e \<in> set (emails d). \<exists>a \<in> set (emailAccounts d).
          email_emailAccountId e = account_id a \<and> email_id e = emailId
          \<and> account_userId a = userId)"
proof -
  let ?P = "\<lambda>r. email_id (row_email r) = emailId \<and> account_userId (row_account r) = userId"
  have "(getEmailById d emailId userId \<noteq> None) = (filter ?P (joined_rows d) \<noteq> [])"
    by (simp add: getEmailById_def Let_def split: list.splits)
  also have "\<dots> = (\<exists>r \<in> set (joined_rows d). ?P r)"
    by (simp add: filter_empty_conv)
  also have "\<dots> = (\<exists>e a. (\<exists>r \<in> set (joined_rows d). row_email r = e \<and> row_account r = a)
                        \<and> email_id e = emailId \<and> account_userId a = userId)"
    by blast
  also have "\<dots> = (\<exists>e \<in> set (emails d). \<exists>a \<in> set (emailAccounts d).
          email_emailAccountId e = account_id a \<and> email_id e = emailId
          \<and> account_userId a = userId)"
    unfolding joined_rows_iff by blast
  finally show ?thesis .
qed

lemma addLabelToEmail_Inr:
  assumes "addLabelToEmail d uuid dbNow data userId = Inr d'"
  shows "getEmailById d (iel_emailId data) userId \<noteq> None
       \<and> getLabelById d (iel_labelId data) userId \<noteq> None
       \<and> (\<exists>e \<in> set (emails d). email_id e = iel_emailId data)
       \<and> (\<exists>l \<in> set (labels d). label_id l = iel_labelId data)
       \<and> emails d' = emails d \<and> emailAccounts d' = emailAccounts d \<and> labels d' = labels d
       \<and> (uuid \<notin> el_id ` set (emailLabels d) \<longrightarrow>
            emailLabels d' = emailLabels d @
              [\<lparr>el_id = uuid, el_emailId = iel_emailId data, el_labelId = iel_labelId data,
                el_isAuto = iel_isAuto data, el_createdAt = Some dbNow\<rparr>])"
  using assms
  by (auto simp: addLabelToEmail_def insert_emailLabel_onConflictDoNothing_def Let_def
           split: if_splits)

text \<open>
  In every store: after a first assignment that inserted its row, a second assignment of
  the same pair with a fresh identifier succeeds and the pair has two rows more than
  before the first.
\<close>

lemma addLabelToEmail_twice:
  assumes first: "addLabelToEmail d uuid1 t1 data userId = Inr d1"
      and fresh1: "uuid1 \<notin> el_id ` set (emailLabels d)"
      and fresh2: "uuid2 \<notin> el_id ` set (emailLabels d1)"
  shows "\<exists>d2. addLabelToEmail d1 uuid2 t2 data userId = Inr d2
           \<and> length [el \<leftarrow> emailLabels d2.
                 el_emailId el = iel_emailId data \<and> el_labelId el = iel_labelId data]
             = length [el \<leftarrow> emailLabels d.
                 el_emailId el = iel_emailId data \<and> el_labelId el = iel_labelId data] + 2"
proof -
  note a = addLabelToEmail_Inr [OF first]
  from a fresh1 have els1: "emailLabels d1 = emailLabels d @
              [\<lparr>el_id = uuid1, el_emailId = iel_emailId data, el_labelId = iel_labelId data,
                el_isAuto = iel_isAuto data, el_createdAt = Some t1\<rparr>]"
    by blast
  from a have same: "emails d1 = emails d" "emailAccounts d1 = emailAccounts d"
      "labels d1 = labels d"
    by blast+
  from a have "getEmailById d (iel_emailId data) userId \<noteq> None"
    by blast
  then have e1: "getEmailById d1 (iel_emailId data) userId \<noteq> None"
    unfolding getEmailById_found same .
  from a have l1: "getLabelById d1 (iel_labelId data) userId \<noteq> None"
    by (simp add: getLabelById_def same)
  from a have fk: "(\<exists>e \<in> set (emails d1). email_id e = iel_emailId data)
                 \<and> (\<exists>l \<in> set (labels d1). label_id l = iel_labelId data)"
    unfolding same by blast
  from fresh2 have nc: "\<not> (\<exists>el \<in> set (emailLabels d1). el_id el = uuid2)"
    by (auto simp: image_iff)
  let ?d2 = "d1\<lparr>emailLabels := emailLabels d1 @
              [\<lparr>el_id = uuid2, el_emailId = iel_emailId data, el_labelId = iel_labelId data,
                el_isAuto = iel_isAuto data, el_createdAt = Some t2\<rparr>]\<rparr>"
  have second: "addLabelToEmail d1 uuid2 t2 data userId = Inr ?d2"
    using e1 l1 fk nc
    by (simp add: addLabelToEmail_def insert_emailLabel_onConflictDoNothing_def Let_def
             del: bex_simps)
  have "length [el \<leftarrow> emailLabels ?d2.
                 el_emailId el = iel_emailId data \<and> el_labelId el = iel_labelId data]
             = length [el \<leftarrow> emailLabels d.
                 el_emailId el = iel_emailId data \<and> el_labelId el = iel_labelId data] + 2"
    by (simp add: els1)
  with second show ?thesis by blast
qed

text \<open>
  C3. Assigning the label \<open>L1\<close> to the email \<open>E2\<close> twice, on behalf of the user who owns
  both: the first call inserts the association, and the second call, with the next
  generated identifier, inserts a second row for the same pair. The insert does nothing
  only on a conflict, and a repeated pair of email and label is none in this table.
\<close>

theorem C3_second_assignment_adds_row:
  "addLabelToEmail demo_db ''EL2'' 600 demo_assign ''U1'' = Inr demo_assigned_once
   \<and> addLabelToEmail demo_assigned_once ''EL3'' 601 demo_assign ''U1'' = Inr demo_assigned_twice
   \<and> length [el \<leftarrow> emailLabels demo_assigned_once.
               el_emailId el = ''E2'' \<and> el_labelId el = ''L1''] = 1
   \<and> length [el \<leftarrow> emailLabels demo_assigned_twice.
               el_emailId el = ''E2'' \<and> el_labelId el = ''L1''] = 2"
  by code_simp

end
